theory Spec2Isabelle
  imports Main "HOL-Library.AList"
begin

section \<open>The session hub of server/websocket-server.js\<close>

text \<open>
  The hub keeps three module-level JavaScript \<^verbatim>\<open>Map\<close>s: \<^verbatim>\<open>sessions\<close>,
  \<^verbatim>\<open>clients\<close> and \<^verbatim>\<open>userConnections\<close>. A \<^verbatim>\<open>Map\<close> iterates in insertion order,
  \<^verbatim>\<open>set\<close> on a present key keeps the key's position and \<^verbatim>\<open>delete\<close> removes the key;
  this is an association list with \<open>map_of\<close>, \<open>AList.update\<close> and \<open>AList.delete\<close>.
  A WebSocket object is identified by a number; the set \<open>open_ws\<close> holds the sockets
  whose \<^verbatim>\<open>readyState\<close> is \<^verbatim>\<open>OPEN\<close>. Every \<^verbatim>\<open>ws.send\<close> is recorded, in order, in
  \<open>sent\<close>. \<^verbatim>\<open>Date.now()\<close> and \<^verbatim>\<open>uuidv4()\<close> are inputs of each step: one clock
  reading \<open>now\<close> and one generated identifier \<open>uuid\<close> per handled event.
  Payload fields are strings (a payload of another JSON type is outside the model).
\<close>

subsection \<open>Data\<close>

type_synonym ws = nat

record participant =
  p_id :: string
  p_name :: string
  joinedAt :: int
  isConnected :: bool
  reconnectedAt :: "int option"
  disconnectedAt :: "int option"

record ingredient =
  i_id :: string
  i_name :: string
  addedBy :: string
  addedAt :: int

text \<open>\<open>r_body\<close> stands for the opaque fields of a recipe (title and the rest), which the
  server copies with the spread \<^verbatim>\<open>...recipe\<close>.\<close>

record recipe =
  r_id :: string
  r_body :: string
  r_createdAt :: int
  r_votes :: int
  r_voterIds :: "string list"

text \<open>\<^verbatim>\<open>session.votes\<close> is a plain object of plain objects:
  userId \<open>\<rightarrow>\<close> (recipeId \<open>\<rightarrow>\<close> voteType), enumerated by \<^verbatim>\<open>Object.entries\<close> in insertion
  order. (An engine enumerates keys that are array indices first, and keys such as
  \<^verbatim>\<open>__proto__\<close> reach the prototype; such userIds are outside the model.)\<close>

type_synonym votes_obj = "(string \<times> (string \<times> string) list) list"

record session =
  s_id :: string
  hostId :: string
  hostName :: string
  createdAt :: int
  lastActivity :: int
  allowRecipeGeneration :: bool
  participants :: "participant list"
  ingredients :: "ingredient list"
  blacklist :: "string list"
  s_context :: string
  recipes :: "recipe list"
  votes :: votes_obj

record clientInfo =
  userId :: string
  sessionId :: string
  username :: string

datatype stamp = JoinedAt int | ReconnectedAt int

text \<open>The events the server sends. \<^verbatim>\<open>session:joined\<close> carries what \<^verbatim>\<open>addParticipant\<close>
  returned, the session or \<^verbatim>\<open>null\<close>; \<^verbatim>\<open>session:participant:joined\<close> carries the userId,
  the name and either \<^verbatim>\<open>joinedAt\<close> or \<^verbatim>\<open>reconnectedAt\<close>.\<close>

datatype event =
    ConnectionEstablished string
  | SessionCreated session
  | SessionJoined "session option"
  | SessionError string
  | SessionExpired string
  | SessionEnded string
  | ParticipantJoined string string stamp
  | ParticipantDisconnected string string
  | IngredientsAdded ingredient
  | IngredientsRemoved string ingredient
  | IngredientsBlacklisted string "string list" "ingredient list"
  | RecipesAdded recipe
  | RecipesVoted string string string "recipe list"
  | RecipesRemoved string recipe
  | ContextUpdated string
  | HostTransferred string string session
  | HostPermissionsUpdated bool session
  | Error string

record hub =
  sessions :: "(string \<times> session) list"
  clients :: "(ws \<times> clientInfo) list"
  userConnections :: "(string \<times> ws) list"
  open_ws :: "ws set"
  sent :: "(ws \<times> event) list"

datatype command =
    SessionCreate string string string
  | SessionJoin string string string
  | IngredientsAdd ingredient
  | IngredientsRemove string
  | IngredientsBlacklist string bool
  | RecipesAdd recipe
  | RecipesVote string string
  | RecipesRemove string
  | ContextUpdate string
  | HostTransfer string
  | HostPermissions bool
  | SessionEnd
  | UnknownType string

datatype input =
    Connection ws string
  | Message ws command int string
  | Close ws int
  | Sweep int

subsection \<open>Helpers for JavaScript built-ins\<close>

definition SESSION_TIMEOUT :: int where
  "SESSION_TIMEOUT = 4 * 60 * 60 * 1000"

text \<open>\<^verbatim>\<open>String.prototype.toLowerCase\<close>, on the ASCII letters.\<close>

definition lower_char :: "char \<Rightarrow> char" where
  "lower_char c =
     (let n = (of_char c :: nat) in if 65 \<le> n \<and> n \<le> 90 then char_of (n + 32) else c)"

definition toLowerCase :: "string \<Rightarrow> string" where
  "toLowerCase s = map lower_char s"

text \<open>\<^verbatim>\<open>findIndex\<close> followed by \<^verbatim>\<open>splice(index, 1)\<close>: the first match is removed.\<close>

fun remove_first :: "('a \<Rightarrow> bool) \<Rightarrow> 'a list \<Rightarrow> 'a list" where
  "remove_first P [] = []"
| "remove_first P (x # xs) = (if P x then xs else x # remove_first P xs)"

text \<open>\<^verbatim>\<open>find\<close> followed by assignments to the fields of the object found.\<close>

fun update_first :: "('a \<Rightarrow> bool) \<Rightarrow> ('a \<Rightarrow> 'a) \<Rightarrow> 'a list \<Rightarrow> 'a list" where
  "update_first P f [] = []"
| "update_first P f (x # xs) = (if P x then f x # xs else x # update_first P f xs)"

text \<open>JavaScript truthiness of a property read: a missing property is \<^verbatim>\<open>undefined\<close>, and
  the only falsy string is the empty one.\<close>

definition truthy :: "string option \<Rightarrow> bool" where
  "truthy v = (case v of None \<Rightarrow> False | Some s \<Rightarrow> s \<noteq> [])"

definition send :: "ws \<Rightarrow> event \<Rightarrow> hub \<Rightarrow> hub" where
  "send w m h = h\<lparr>sent := sent h @ [(w, m)]\<rparr>"

text \<open>A session object held in \<^verbatim>\<open>sessions\<close> is mutated in place.\<close>

definition modify_session :: "string \<Rightarrow> (session \<Rightarrow> session) \<Rightarrow> hub \<Rightarrow> hub" where
  "modify_session sid f h = h\<lparr>sessions := AList.map_entry sid f (sessions h)\<rparr>"

subsection \<open>Session store\<close>

definition createSession :: "int \<Rightarrow> string \<Rightarrow> string \<Rightarrow> string \<Rightarrow> hub \<Rightarrow> session \<times> hub" where
  "createSession now sid hId hName h =
     (let session = \<lparr>s_id = sid, hostId = hId, hostName = hName, createdAt = now,
            lastActivity = now, allowRecipeGeneration = True,
            participants = [\<lparr>p_id = hId, p_name = hName, joinedAt = now, isConnected = True,
               reconnectedAt = None, disconnectedAt = None\<rparr>],
            ingredients = [], blacklist = [], s_context = [], recipes = [], votes = []\<rparr>
      in (session, h\<lparr>sessions := AList.update sid session (sessions h)\<rparr>))"

definition getSession :: "int \<Rightarrow> string \<Rightarrow> hub \<Rightarrow> session option \<times> hub" where
  "getSession now sid h =
     (case map_of (sessions h) sid of
        None \<Rightarrow> (None, h)
      | Some session \<Rightarrow>
          if now - lastActivity session > SESSION_TIMEOUT
          then (None, h\<lparr>sessions := AList.delete sid (sessions h)\<rparr>)
          else (Some session, h))"

definition updateSessionActivity :: "int \<Rightarrow> string \<Rightarrow> hub \<Rightarrow> hub" where
  "updateSessionActivity now sid h = modify_session sid (\<lambda>s. s\<lparr>lastActivity := now\<rparr>) h"

definition addParticipant :: "int \<Rightarrow> string \<Rightarrow> string \<Rightarrow> string \<Rightarrow> hub \<Rightarrow> session option \<times> hub" where
  "addParticipant now sid uid uname h =
     (case getSession now sid h of
        (None, h1) \<Rightarrow> (None, h1)
      | (Some session, h1) \<Rightarrow>
          let h2 =
                (if \<exists>p \<in> set (participants session). p_id p = uid
                 then modify_session sid (\<lambda>s. s\<lparr>participants :=
                        update_first (\<lambda>p. p_id p = uid)
                          (\<lambda>p. p\<lparr>isConnected := True, reconnectedAt := Some now\<rparr>)
                          (participants s)\<rparr>) h1
                 else modify_session sid (\<lambda>s. s\<lparr>participants := participants s @
                        [\<lparr>p_id = uid, p_name = uname, joinedAt = now, isConnected = True,
                          reconnectedAt = None, disconnectedAt = None\<rparr>]\<rparr>) h1);
              h3 = updateSessionActivity now sid h2
          in (map_of (sessions h3) sid, h3))"

definition removeParticipant :: "int \<Rightarrow> string \<Rightarrow> string \<Rightarrow> hub \<Rightarrow> session option \<times> hub" where
  "removeParticipant now sid uid h =
     (case getSession now sid h of
        (None, h1) \<Rightarrow> (None, h1)
      | (Some session, h1) \<Rightarrow>
          let h2 = modify_session sid (\<lambda>s. s\<lparr>participants :=
                     update_first (\<lambda>p. p_id p = uid)
                       (\<lambda>p. p\<lparr>isConnected := False, disconnectedAt := Some now\<rparr>)
                       (participants s)\<rparr>) h1
          in (map_of (sessions h2) sid, h2))"

subsection \<open>Broadcaster\<close>

text \<open>The receivers of a broadcast: the registered sockets of the session, other than
  those of the excluded user, that are open. Without \<^verbatim>\<open>excludeUserId\<close> the comparison
  is with \<^verbatim>\<open>null\<close>, which no userId equals.\<close>

definition receivers :: "string \<Rightarrow> string option \<Rightarrow> hub \<Rightarrow> ws list" where
  "receivers sid excludeUserId h =
     map fst (filter (\<lambda>(w, clientInfo). sessionId clientInfo = sid \<and>
                        Some (userId clientInfo) \<noteq> excludeUserId \<and> w \<in> open_ws h)
                (clients h))"

definition broadcastToSession :: "int \<Rightarrow> string \<Rightarrow> event \<Rightarrow> string option \<Rightarrow> hub \<Rightarrow> hub" where
  "broadcastToSession now sid message excludeUserId h =
     (case getSession now sid h of
        (None, h1) \<Rightarrow> h1
      | (Some session, h1) \<Rightarrow>
          h1\<lparr>sent := sent h1 @ map (\<lambda>w. (w, message)) (receivers sid excludeUserId h1)\<rparr>)"

subsection \<open>Reaper\<close>

definition cleanupExpiredSessions :: "int \<Rightarrow> hub \<Rightarrow> hub" where
  "cleanupExpiredSessions now h =
     (let expiredSessions =
            map fst (filter (\<lambda>(sid, session). now - lastActivity session > SESSION_TIMEOUT)
                       (sessions h))
      in fold (\<lambda>sid h'. broadcastToSession now sid (SessionExpired sid) None
                          (h'\<lparr>sessions := AList.delete sid (sessions h')\<rparr>))
           expiredSessions h)"

subsection \<open>Command handlers\<close>

text \<open>The two assignments under the comment \<^verbatim>\<open>Register client\<close>: \<^verbatim>\<open>clients.set\<close> and
  \<^verbatim>\<open>userConnections.set\<close>.\<close>

definition register :: "ws \<Rightarrow> string \<Rightarrow> string \<Rightarrow> string \<Rightarrow> hub \<Rightarrow> hub" where
  "register w uid sid uname h =
     h\<lparr>clients := AList.update w \<lparr>userId = uid, sessionId = sid, username = uname\<rparr> (clients h),
       userConnections := AList.update uid w (userConnections h)\<rparr>"

definition handleSessionCreate :: "int \<Rightarrow> ws \<Rightarrow> string \<Rightarrow> string \<Rightarrow> string \<Rightarrow> hub \<Rightarrow> hub" where
  "handleSessionCreate now w sid uid uname h =
     (case getSession now sid h of
        (Some existingSession, h1) \<Rightarrow>
          if hostId existingSession = uid then
            (case addParticipant now sid uid uname h1 of
               (updated, h2) \<Rightarrow>
                 let h3 = register w uid sid uname h2;
                     h4 = send w (SessionCreated
                            (case updated of Some s \<Rightarrow> s | None \<Rightarrow> existingSession)) h3
                 in broadcastToSession now sid
                      (ParticipantJoined uid uname (ReconnectedAt now)) (Some uid) h4)
          else send w (SessionError ''Session already exists'') h1
      | (None, h1) \<Rightarrow>
          (case createSession now sid uid uname h1 of
             (session, h2) \<Rightarrow>
               let h3 = register w uid sid uname h2
               in send w (SessionCreated session) h3))"

definition handleSessionJoin :: "int \<Rightarrow> ws \<Rightarrow> string \<Rightarrow> string \<Rightarrow> string \<Rightarrow> hub \<Rightarrow> hub" where
  "handleSessionJoin now w sid uid uname h =
     (case getSession now sid h of
        (None, h1) \<Rightarrow> send w (SessionError ''Session not found or expired'') h1
      | (Some session, h1) \<Rightarrow>
          if (case map_of (userConnections h1) uid of
                None \<Rightarrow> False
              | Some existingConnection \<Rightarrow> existingConnection \<noteq> w)
          then send w (SessionError ''User already connected from another client'') h1
          else
            (case addParticipant now sid uid uname h1 of
               (updatedSession, h2) \<Rightarrow>
                 let h3 = register w uid sid uname h2;
                     h4 = send w (SessionJoined updatedSession) h3
                 in broadcastToSession now sid
                      (ParticipantJoined uid uname (JoinedAt now)) (Some uid) h4))"

text \<open>The payload of \<^verbatim>\<open>ingredients:add\<close> is an ingredient object of the client; the server
  reads its \<^verbatim>\<open>name\<close> and \<^verbatim>\<open>addedBy\<close> only.\<close>

definition handleIngredientsAdd :: "int \<Rightarrow> string \<Rightarrow> ws \<Rightarrow> ingredient \<Rightarrow> hub \<Rightarrow> hub" where
  "handleIngredientsAdd now uuid w ingredient h =
     (case map_of (clients h) w of
        None \<Rightarrow> h
      | Some clientInfo \<Rightarrow>
          (case getSession now (sessionId clientInfo) h of
             (None, h1) \<Rightarrow> h1
           | (Some session, h1) \<Rightarrow>
               let ingredientName = toLowerCase (i_name ingredient) in
               if \<exists>ing \<in> set (ingredients session). toLowerCase (i_name ing) = ingredientName
               then h1
               else
                 let newIngredient = \<lparr>i_id = uuid, i_name = ingredientName,
                       addedBy = addedBy ingredient, addedAt = now\<rparr>;
                     h2 = modify_session (sessionId clientInfo)
                            (\<lambda>s. s\<lparr>ingredients := ingredients s @ [newIngredient]\<rparr>) h1;
                     h3 = updateSessionActivity now (sessionId clientInfo) h2
                 in broadcastToSession now (sessionId clientInfo)
                      (IngredientsAdded newIngredient) None h3))"

definition handleIngredientsRemove :: "int \<Rightarrow> ws \<Rightarrow> string \<Rightarrow> hub \<Rightarrow> hub" where
  "handleIngredientsRemove now w ingredientId h =
     (case map_of (clients h) w of
        None \<Rightarrow> h
      | Some clientInfo \<Rightarrow>
          (case getSession now (sessionId clientInfo) h of
             (None, h1) \<Rightarrow> h1
           | (Some session, h1) \<Rightarrow>
               (case find (\<lambda>ing. i_id ing = ingredientId) (ingredients session) of
                  Some removedIngredient \<Rightarrow>
                    let h2 = modify_session (sessionId clientInfo)
                               (\<lambda>s. s\<lparr>ingredients :=
                                  remove_first (\<lambda>ing. i_id ing = ingredientId) (ingredients s)\<rparr>) h1;
                        h3 = updateSessionActivity now (sessionId clientInfo) h2
                    in broadcastToSession now (sessionId clientInfo)
                         (IngredientsRemoved ingredientId removedIngredient) None h3
                | None \<Rightarrow> h1)))"

definition handleIngredientsBlacklist :: "int \<Rightarrow> ws \<Rightarrow> string \<Rightarrow> bool \<Rightarrow> hub \<Rightarrow> hub" where
  "handleIngredientsBlacklist now w ingredientName fromIngredients h =
     (case map_of (clients h) w of
        None \<Rightarrow> h
      | Some clientInfo \<Rightarrow>
          (case getSession now (sessionId clientInfo) h of
             (None, h1) \<Rightarrow> h1
           | (Some session, h1) \<Rightarrow>
               let h2 = (if toLowerCase ingredientName \<notin> set (blacklist session)
                         then modify_session (sessionId clientInfo)
                                (\<lambda>s. s\<lparr>blacklist := blacklist s @ [toLowerCase ingredientName]\<rparr>) h1
                         else h1);
                   h3 = (if fromIngredients
                         then modify_session (sessionId clientInfo)
                                (\<lambda>s. s\<lparr>ingredients :=
                                   remove_first
                                     (\<lambda>ing. toLowerCase (i_name ing) = toLowerCase ingredientName)
                                     (ingredients s)\<rparr>) h2
                         else h2);
                   h4 = updateSessionActivity now (sessionId clientInfo) h3
               in (case map_of (sessions h4) (sessionId clientInfo) of
                     Some s \<Rightarrow>
                       broadcastToSession now (sessionId clientInfo)
                         (IngredientsBlacklisted (toLowerCase ingredientName)
                            (blacklist s) (ingredients s)) None h4
                   | None \<Rightarrow> h4)))"

text \<open>The payload of \<^verbatim>\<open>recipes:add\<close> is a recipe object of the client, whose \<^verbatim>\<open>id\<close>,
  \<^verbatim>\<open>createdAt\<close>, \<^verbatim>\<open>votes\<close> and \<^verbatim>\<open>voterIds\<close> are overwritten after the spread.\<close>

definition handleRecipesAdd :: "int \<Rightarrow> string \<Rightarrow> ws \<Rightarrow> recipe \<Rightarrow> hub \<Rightarrow> hub" where
  "handleRecipesAdd now uuid w recipe h =
     (case map_of (clients h) w of
        None \<Rightarrow> h
      | Some clientInfo \<Rightarrow>
          (case getSession now (sessionId clientInfo) h of
             (None, h1) \<Rightarrow> h1
           | (Some session, h1) \<Rightarrow>
               let newRecipe = recipe\<lparr>r_id := uuid, r_createdAt := now, r_votes := 0,
                                 r_voterIds := []\<rparr>;
                   h2 = modify_session (sessionId clientInfo)
                          (\<lambda>s. s\<lparr>recipes := recipes s @ [newRecipe]\<rparr>) h1;
                   h3 = updateSessionActivity now (sessionId clientInfo) h2
               in broadcastToSession now (sessionId clientInfo) (RecipesAdded newRecipe) None h3))"

text \<open>The inner loop of \<^verbatim>\<open>handleRecipesVote\<close> over \<^verbatim>\<open>Object.entries(session.votes)\<close>, with
  its three accumulators \<^verbatim>\<open>upvotes\<close>, \<^verbatim>\<open>downvotes\<close> and \<^verbatim>\<open>voterIds\<close>.\<close>

fun count_votes :: "string \<Rightarrow> votes_obj \<Rightarrow> int \<times> int \<times> string list \<Rightarrow> int \<times> int \<times> string list" where
  "count_votes rid [] acc = acc"
| "count_votes rid ((voterId, userVotes) # entries) (upvotes, downvotes, voterIds) =
     (if truthy (map_of userVotes rid)
      then count_votes rid entries
             (if map_of userVotes rid = Some ''up'' then (upvotes + 1, downvotes, voterIds @ [voterId])
              else if map_of userVotes rid = Some ''down''
                   then (upvotes, downvotes + 1, voterIds @ [voterId])
                   else (upvotes, downvotes, voterIds @ [voterId]))
      else count_votes rid entries (upvotes, downvotes, voterIds))"

definition recount :: "votes_obj \<Rightarrow> recipe \<Rightarrow> recipe" where
  "recount vs recipe =
     (case count_votes (r_id recipe) vs (0, 0, []) of
        (upvotes, downvotes, voterIds) \<Rightarrow>
          recipe\<lparr>r_votes := upvotes - downvotes, r_voterIds := voterIds\<rparr>)"

text \<open>The three assignments to \<^verbatim>\<open>session.votes\<close>: the user's object is created when
  missing, the previous vote is deleted, and a vote other than \<^verbatim>\<open>"neutral"\<close> is set (after
  the deletion it is a new property, enumerated last).\<close>

definition cast_vote :: "string \<Rightarrow> string \<Rightarrow> string \<Rightarrow> votes_obj \<Rightarrow> votes_obj" where
  "cast_vote uid recipeId voteType vs =
     (let vs1 = (if map_of vs uid = None then vs @ [(uid, [])] else vs);
          vs2 = AList.map_entry uid (AList.delete recipeId) vs1
      in if voteType \<noteq> ''neutral''
         then AList.map_entry uid (AList.update recipeId voteType) vs2
         else vs2)"

definition handleRecipesVote :: "int \<Rightarrow> ws \<Rightarrow> string \<Rightarrow> string \<Rightarrow> hub \<Rightarrow> hub" where
  "handleRecipesVote now w recipeId voteType h =
     (case map_of (clients h) w of
        None \<Rightarrow> h
      | Some clientInfo \<Rightarrow>
          (case getSession now (sessionId clientInfo) h of
             (None, h1) \<Rightarrow> h1
           | (Some session, h1) \<Rightarrow>
               let h2 = modify_session (sessionId clientInfo)
                          (\<lambda>s. s\<lparr>votes := cast_vote (userId clientInfo) recipeId voteType (votes s)\<rparr>) h1;
                   h3 = modify_session (sessionId clientInfo)
                          (\<lambda>s. s\<lparr>recipes := map (recount (votes s)) (recipes s)\<rparr>) h2;
                   h4 = updateSessionActivity now (sessionId clientInfo) h3
               in (case map_of (sessions h4) (sessionId clientInfo) of
                     Some s \<Rightarrow>
                       broadcastToSession now (sessionId clientInfo)
                         (RecipesVoted recipeId voteType (userId clientInfo) (recipes s)) None h4
                   | None \<Rightarrow> h4)))"

definition handleRecipesRemove :: "int \<Rightarrow> ws \<Rightarrow> string \<Rightarrow> hub \<Rightarrow> hub" where
  "handleRecipesRemove now w recipeId h =
     (case map_of (clients h) w of
        None \<Rightarrow> h
      | Some clientInfo \<Rightarrow>
          (case getSession now (sessionId clientInfo) h of
             (None, h1) \<Rightarrow> h1
           | (Some session, h1) \<Rightarrow>
               (case find (\<lambda>recipe. r_id recipe = recipeId) (recipes session) of
                  Some removedRecipe \<Rightarrow>
                    let h2 = modify_session (sessionId clientInfo)
                               (\<lambda>s. s\<lparr>recipes :=
                                  remove_first (\<lambda>recipe. r_id recipe = recipeId) (recipes s)\<rparr>) h1;
                        h3 = updateSessionActivity now (sessionId clientInfo) h2
                    in broadcastToSession now (sessionId clientInfo)
                         (RecipesRemoved recipeId removedRecipe) None h3
                | None \<Rightarrow> h1)))"

definition handleContextUpdate :: "int \<Rightarrow> ws \<Rightarrow> string \<Rightarrow> hub \<Rightarrow> hub" where
  "handleContextUpdate now w ctx h =
     (case map_of (clients h) w of
        None \<Rightarrow> h
      | Some clientInfo \<Rightarrow>
          (case getSession now (sessionId clientInfo) h of
             (None, h1) \<Rightarrow> h1
           | (Some session, h1) \<Rightarrow>
               if userId clientInfo \<noteq> hostId session then h1
               else
                 let h2 = modify_session (sessionId clientInfo) (\<lambda>s. s\<lparr>s_context := ctx\<rparr>) h1;
                     h3 = updateSessionActivity now (sessionId clientInfo) h2
                 in broadcastToSession now (sessionId clientInfo) (ContextUpdated ctx)
                      (Some (userId clientInfo)) h3))"

definition handleHostTransfer :: "int \<Rightarrow> ws \<Rightarrow> string \<Rightarrow> hub \<Rightarrow> hub" where
  "handleHostTransfer now w newHostId h =
     (case map_of (clients h) w of
        None \<Rightarrow> h
      | Some clientInfo \<Rightarrow>
          (case getSession now (sessionId clientInfo) h of
             (None, h1) \<Rightarrow> h1
           | (Some session, h1) \<Rightarrow>
               if hostId session \<noteq> userId clientInfo
               then send w (Error ''Only host can transfer privileges'') h1
               else
                 (case find (\<lambda>p. p_id p = newHostId) (participants session) of
                    None \<Rightarrow> send w (Error ''New host not found in session'') h1
                  | Some newHost \<Rightarrow>
                      let h2 = modify_session (sessionId clientInfo)
                                 (\<lambda>s. s\<lparr>hostId := newHostId, hostName := p_name newHost\<rparr>) h1;
                          h3 = updateSessionActivity now (sessionId clientInfo) h2
                      in (case map_of (sessions h3) (sessionId clientInfo) of
                            Some s \<Rightarrow>
                              broadcastToSession now (sessionId clientInfo)
                                (HostTransferred newHostId (p_name newHost) s) None h3
                          | None \<Rightarrow> h3))))"

definition handleHostPermissions :: "int \<Rightarrow> ws \<Rightarrow> bool \<Rightarrow> hub \<Rightarrow> hub" where
  "handleHostPermissions now w allow h =
     (case map_of (clients h) w of
        None \<Rightarrow> h
      | Some clientInfo \<Rightarrow>
          (case getSession now (sessionId clientInfo) h of
             (None, h1) \<Rightarrow> h1
           | (Some session, h1) \<Rightarrow>
               if hostId session \<noteq> userId clientInfo
               then send w (Error ''Only host can change permissions'') h1
               else
                 let h2 = modify_session (sessionId clientInfo)
                            (\<lambda>s. s\<lparr>allowRecipeGeneration := allow\<rparr>) h1;
                     h3 = updateSessionActivity now (sessionId clientInfo) h2
                 in (case map_of (sessions h3) (sessionId clientInfo) of
                       Some s \<Rightarrow>
                         broadcastToSession now (sessionId clientInfo)
                           (HostPermissionsUpdated allow s) None h3
                     | None \<Rightarrow> h3)))"

text \<open>\<^verbatim>\<open>session:end\<close>: after the broadcast the session is deleted and every registered
  socket of the session is unregistered and closed (\<^verbatim>\<open>ws.close\<close> leaves the state
  \<^verbatim>\<open>OPEN\<close> at once).\<close>

definition handleSessionEnd :: "int \<Rightarrow> ws \<Rightarrow> hub \<Rightarrow> hub" where
  "handleSessionEnd now w h =
     (case map_of (clients h) w of
        None \<Rightarrow> h
      | Some clientInfo \<Rightarrow>
          (case getSession now (sessionId clientInfo) h of
             (None, h1) \<Rightarrow> h1
           | (Some session, h1) \<Rightarrow>
               if hostId session \<noteq> userId clientInfo
               then send w (Error ''Only host can end session'') h1
               else
                 let h2 = broadcastToSession now (sessionId clientInfo)
                            (SessionEnded ''Session has been ended by the host'') None h1;
                     h3 = h2\<lparr>sessions := AList.delete (sessionId clientInfo) (sessions h2)\<rparr>;
                     members = filter (\<lambda>(w', client). sessionId client = sessionId clientInfo)
                                 (clients h3)
                 in h3\<lparr>clients := filter (\<lambda>(w', client). sessionId client \<noteq> sessionId clientInfo)
                                    (clients h3),
                       userConnections := fold (\<lambda>(w', client). AList.delete (userId client))
                                            members (userConnections h3),
                       open_ws := open_ws h3 - fst ` set members\<rparr>))"

subsection \<open>Connection lifecycle and dispatch\<close>

definition handleDisconnection :: "int \<Rightarrow> ws \<Rightarrow> hub \<Rightarrow> hub" where
  "handleDisconnection now w h =
     (case map_of (clients h) w of
        None \<Rightarrow> h
      | Some clientInfo \<Rightarrow>
          let h1 = h\<lparr>clients := AList.delete w (clients h),
                     userConnections := AList.delete (userId clientInfo) (userConnections h)\<rparr>;
              h2 = snd (removeParticipant now (sessionId clientInfo) (userId clientInfo) h1)
          in broadcastToSession now (sessionId clientInfo)
               (ParticipantDisconnected (userId clientInfo) (username clientInfo))
               (Some (userId clientInfo)) h2)"

definition handleConnection :: "string \<Rightarrow> ws \<Rightarrow> hub \<Rightarrow> hub" where
  "handleConnection connectionId w h =
     send w (ConnectionEstablished connectionId) (h\<lparr>open_ws := insert w (open_ws h)\<rparr>)"

fun handleMessage :: "int \<Rightarrow> string \<Rightarrow> ws \<Rightarrow> command \<Rightarrow> hub \<Rightarrow> hub" where
  "handleMessage now uuid w (SessionCreate sid uid uname) h = handleSessionCreate now w sid uid uname h"
| "handleMessage now uuid w (SessionJoin sid uid uname) h = handleSessionJoin now w sid uid uname h"
| "handleMessage now uuid w (IngredientsAdd ingredient) h = handleIngredientsAdd now uuid w ingredient h"
| "handleMessage now uuid w (IngredientsRemove ingredientId) h = handleIngredientsRemove now w ingredientId h"
| "handleMessage now uuid w (IngredientsBlacklist name fromIngredients) h =
     handleIngredientsBlacklist now w name fromIngredients h"
| "handleMessage now uuid w (RecipesAdd recipe) h = handleRecipesAdd now uuid w recipe h"
| "handleMessage now uuid w (RecipesVote recipeId voteType) h = handleRecipesVote now w recipeId voteType h"
| "handleMessage now uuid w (RecipesRemove recipeId) h = handleRecipesRemove now w recipeId h"
| "handleMessage now uuid w (ContextUpdate ctx) h = handleContextUpdate now w ctx h"
| "handleMessage now uuid w (HostTransfer newHostId) h = handleHostTransfer now w newHostId h"
| "handleMessage now uuid w (HostPermissions allow) h = handleHostPermissions now w allow h"
| "handleMessage now uuid w SessionEnd h = handleSessionEnd now w h"
| "handleMessage now uuid w (UnknownType t) h = send w (Error (''Unknown message type: '' @ t)) h"

text \<open>One event of the server's event loop. A closed socket leaves the state \<^verbatim>\<open>OPEN\<close>
  before its \<^verbatim>\<open>close\<close> handler runs.\<close>

fun step :: "hub \<Rightarrow> input \<Rightarrow> hub" where
  "step h (Connection w connectionId) = handleConnection connectionId w h"
| "step h (Message w cmd now uuid) = handleMessage now uuid w cmd h"
| "step h (Close w now) = handleDisconnection now w (h\<lparr>open_ws := open_ws h - {w}\<rparr>)"
| "step h (Sweep now) = cleanupExpiredSessions now h"

definition init_hub :: hub where
  "init_hub = \<lparr>sessions = [], clients = [], userConnections = [], open_ws = {}, sent = []\<rparr>"

fun run :: "hub \<Rightarrow> input list \<Rightarrow> hub" where
  "run h [] = h"
| "run h (i # is) = run (step h i) is"

subsection \<open>Environment and reachable states\<close>

text \<open>\<^verbatim>\<open>uuidv4()\<close> returns an identifier that is in use nowhere in the hub: it is no
  ingredient id, no recipe id and no recipe id a vote was ever recorded under. A trace is
  valid when the identifiers it supplies to \<^verbatim>\<open>ingredients:add\<close> and \<^verbatim>\<open>recipes:add\<close> are
  fresh in this sense. The reachable states are \<open>run init_hub is\<close> for the valid traces
  \<open>is\<close>.\<close>

definition fresh_uuid :: "hub \<Rightarrow> string \<Rightarrow> bool" where
  "fresh_uuid h uuid =
     (\<forall>(sid, s) \<in> set (sessions h).
        uuid \<notin> i_id ` set (ingredients s) \<and> uuid \<notin> r_id ` set (recipes s) \<and>
        (\<forall>(u, userVotes) \<in> set (votes s). uuid \<notin> fst ` set userVotes))"

fun input_ok :: "hub \<Rightarrow> input \<Rightarrow> bool" where
  "input_ok h (Message w (IngredientsAdd ingredient) now uuid) = fresh_uuid h uuid"
| "input_ok h (Message w (RecipesAdd recipe) now uuid) = fresh_uuid h uuid"
| "input_ok h i = True"

fun valid_trace :: "hub \<Rightarrow> input list \<Rightarrow> bool" where
  "valid_trace h [] = True"
| "valid_trace h (i # is) = (input_ok h i \<and> valid_trace (step h i) is)"

subsection \<open>Vote tallies and the session invariant\<close>


text \<open>What the recount loop computes for a recipe id, in closed form.\<close>

definition ups :: "votes_obj \<Rightarrow> string \<Rightarrow> int" where
  "ups vs rid = int (length (filter (\<lambda>(v, uv). map_of uv rid = Some ''up'') vs))"

definition downs :: "votes_obj \<Rightarrow> string \<Rightarrow> int" where
  "downs vs rid = int (length (filter (\<lambda>(v, uv). map_of uv rid = Some ''down'') vs))"

definition voters :: "votes_obj \<Rightarrow> string \<Rightarrow> string list" where
  "voters vs rid = map fst (filter (\<lambda>(v, uv). truthy (map_of uv rid)) vs)"

definition session_inv :: "session \<Rightarrow> bool" where
  "session_inv s =
     (distinct (map i_id (ingredients s)) \<and>
      distinct (map (\<lambda>ing. toLowerCase (i_name ing)) (ingredients s)) \<and>
      distinct (map fst (votes s)) \<and>
      map (recount (votes s)) (recipes s) = recipes s \<and>
      hostId s \<in> p_id ` set (participants s))"

definition hub_inv :: "hub \<Rightarrow> bool" where
  "hub_inv h = (\<forall>sid s. map_of (sessions h) sid = Some s \<longrightarrow> session_inv s)"

text \<open>The protocol gives \<^verbatim>\<open>recipes:vote\<close> the vote types \<^verbatim>\<open>"up"\<close>, \<^verbatim>\<open>"down"\<close> and
  \<^verbatim>\<open>"neutral"\<close>; the server does not check them. An input is conformant when it is no vote
  or a vote of one of these types, and then every recorded vote is \<^verbatim>\<open>"up"\<close> or
  \<^verbatim>\<open>"down"\<close>.\<close>

definition votes_ok :: "session \<Rightarrow> bool" where
  "votes_ok s =
     (\<forall>(u, userVotes) \<in> set (votes s). \<forall>(rid, v) \<in> set userVotes. v = ''up'' \<or> v = ''down'')"

definition hub_votes :: "hub \<Rightarrow> bool" where
  "hub_votes h = (\<forall>sid s. map_of (sessions h) sid = Some s \<longrightarrow> votes_ok s)"


text \<open>The session after \<^verbatim>\<open>addParticipant\<close>: the first participant with the userId is marked
  connected and stamped, a new participant is appended when there is none, and the
  activity timestamp is set.\<close>

definition rejoined :: "int \<Rightarrow> string \<Rightarrow> string \<Rightarrow> session \<Rightarrow> session" where
  "rejoined now uid uname s =
     s\<lparr>participants :=
          (if \<exists>p \<in> set (participants s). p_id p = uid
           then update_first (\<lambda>p. p_id p = uid)
                  (\<lambda>p. p\<lparr>isConnected := True, reconnectedAt := Some now\<rparr>) (participants s)
           else participants s @
                  [\<lparr>p_id = uid, p_name = uname, joinedAt = now, isConnected = True,
                    reconnectedAt = None, disconnectedAt = None\<rparr>]),
        lastActivity := now\<rparr>"

subsection \<open>Example runs\<close>

text \<open>Alice (user U1) opens socket 1 and creates session S at time 0.\<close>

definition trace_create :: "input list" where
  "trace_create =
     [Connection 1 ''c1'', Message 1 (SessionCreate ''S'' ''U1'' ''Alice'') 0 ''u0'']"

text \<open>Then Bob (user U2) opens socket 2 and joins S at time 1.\<close>

definition trace_join :: "input list" where
  "trace_join =
     [Connection 1 ''c1'', Message 1 (SessionCreate ''S'' ''U1'' ''Alice'') 0 ''u0'',
      Connection 2 ''c2'', Message 2 (SessionJoin ''S'' ''U2'' ''Bob'') 1 ''u1'']"

definition alice :: clientInfo where
  "alice = \<lparr>userId = ''U1'', sessionId = ''S'', username = ''Alice''\<rparr>"

definition bob :: clientInfo where
  "bob = \<lparr>userId = ''U2'', sessionId = ''S'', username = ''Bob''\<rparr>"

definition session_join :: session where
  "session_join =
     \<lparr>s_id = ''S'', hostId = ''U1'', hostName = ''Alice'', createdAt = 0,
      lastActivity = 1, allowRecipeGeneration = True,
      participants = [\<lparr>p_id = ''U1'', p_name = ''Alice'', joinedAt = 0, isConnected = True,
           reconnectedAt = None, disconnectedAt = None\<rparr>,
         \<lparr>p_id = ''U2'', p_name = ''Bob'', joinedAt = 1, isConnected = True,
           reconnectedAt = None, disconnectedAt = None\<rparr>],
      ingredients = [], blacklist = [], s_context = [], recipes = [], votes = []\<rparr>"








text \<open>After \<open>trace_join\<close> a third socket connects; it then sends \<^verbatim>\<open>session:create\<close> for S
  with Alice's userId, while socket 1 is still open.\<close>

definition trace_third :: "input list" where
  "trace_third = trace_join @ [Connection 3 ''c3'']"

definition trace_rejoin :: "input list" where
  "trace_rejoin = trace_third @ [Message 3 (SessionCreate ''S'' ''U1'' ''Alice'') 2 ''u2'']"

definition session_rejoin :: session where
  "session_rejoin =
     session_join\<lparr>lastActivity := 2,
       participants := [\<lparr>p_id = ''U1'', p_name = ''Alice'', joinedAt = 0, isConnected = True,
           reconnectedAt = Some 2, disconnectedAt = None\<rparr>,
         \<lparr>p_id = ''U2'', p_name = ''Bob'', joinedAt = 1, isConnected = True,
           reconnectedAt = None, disconnectedAt = None\<rparr>]\<rparr>"


section \<open>Properties\<close>

subsection \<open>Session lookup, broadcast and the invariant\<close>

lemma delete_absent: "map_of xs k = None \<Longrightarrow> AList.delete k xs = xs"
  by (simp add: map_of_eq_None_iff)

lemma getSession_Some:
  "map_of (sessions h) sid = Some s \<Longrightarrow> \<not> now - lastActivity s > SESSION_TIMEOUT \<Longrightarrow>
     getSession now sid h = (Some s, h)"
  by (simp add: getSession_def)

lemma getSession_SomeD:
  "getSession now sid h = (Some s, h1) \<Longrightarrow>
     h1 = h \<and> map_of (sessions h) sid = Some s \<and> now - lastActivity s \<le> SESSION_TIMEOUT"
  by (auto simp: getSession_def split: option.splits if_splits)

lemma getSession_NoneD:
  "getSession now sid h = (None, h1) \<Longrightarrow> h1 = h\<lparr>sessions := AList.delete sid (sessions h)\<rparr>"
  by (auto simp: getSession_def delete_absent split: option.splits if_splits)

lemma hub_inv_delete: "hub_inv h \<Longrightarrow> hub_inv (h\<lparr>sessions := AList.delete sid (sessions h)\<rparr>)"
  by (auto simp: hub_inv_def AList.delete_conv split: if_splits)

lemma hub_inv_getSession: "hub_inv h \<Longrightarrow> hub_inv (snd (getSession now sid h))"
  by (cases "getSession now sid h"; cases "fst (getSession now sid h)")
     (auto dest!: getSession_SomeD getSession_NoneD simp: hub_inv_delete)

lemma hub_inv_sessions_eq: "sessions h' = sessions h \<Longrightarrow> hub_inv h' = hub_inv h"
  by (simp add: hub_inv_def)

lemma hub_inv_send [simp]: "hub_inv (send w m h) = hub_inv h"
  by (simp add: hub_inv_def send_def)

lemma hub_inv_register [simp]: "hub_inv (register w u sid n h) = hub_inv h"
  by (simp add: hub_inv_def register_def)

lemma hub_inv_other_fields [simp]:
  "hub_inv (h\<lparr>sent := a\<rparr>) = hub_inv h"
  "hub_inv (h\<lparr>clients := b\<rparr>) = hub_inv h"
  "hub_inv (h\<lparr>userConnections := c\<rparr>) = hub_inv h"
  "hub_inv (h\<lparr>open_ws := d\<rparr>) = hub_inv h"
  by (simp_all add: hub_inv_def)

lemma hub_inv_broadcast: "hub_inv h \<Longrightarrow> hub_inv (broadcastToSession now sid m e h)"
  unfolding broadcastToSession_def
  by (auto split: prod.splits option.splits dest!: getSession_SomeD getSession_NoneD
        intro: hub_inv_delete)

lemma hub_inv_modify:
  "hub_inv h \<Longrightarrow> (\<And>s. map_of (sessions h) sid = Some s \<Longrightarrow> session_inv s \<Longrightarrow> session_inv (f s)) \<Longrightarrow>
     hub_inv (modify_session sid f h)"
  by (auto simp: hub_inv_def modify_session_def map_of_map_entry split: if_splits option.splits)

lemma session_inv_lastActivity [simp]: "session_inv (s\<lparr>lastActivity := t\<rparr>) = session_inv s"
  by (simp add: session_inv_def)

lemma hub_inv_activity: "hub_inv h \<Longrightarrow> hub_inv (updateSessionActivity now sid h)"
  unfolding updateSessionActivity_def by (rule hub_inv_modify) simp_all

lemma hub_inv_init: "hub_inv init_hub"
  by (simp add: hub_inv_def init_hub_def)

lemma set_remove_first: "set (remove_first P xs) \<subseteq> set xs"
  by (induction xs) auto

lemma distinct_map_remove_first:
  "distinct (map f xs) \<Longrightarrow> distinct (map f (remove_first P xs))"
proof (induction xs)
  case Nil
  then show ?case by simp
next
  case (Cons x xs)
  have "f x \<notin> f ` set (remove_first P xs)" if "f x \<notin> f ` set xs"
    using that set_remove_first [of P xs] by auto
  with Cons show ?case by auto
qed

lemma map_remove_first_fixed:
  "map g xs = xs \<Longrightarrow> map g (remove_first P xs) = remove_first P xs"
  by (induction xs) auto

lemma map_p_id_update_first:
  "(\<And>p. p_id (f p) = p_id p) \<Longrightarrow> map p_id (update_first P f xs) = map p_id xs"
  by (induction xs) auto

lemma count_votes_eq:
  "count_votes rid vs (u, d, vl) =
     (u + int (length (filter (\<lambda>(v, uv). map_of uv rid = Some ''up'') vs)),
      d + int (length (filter (\<lambda>(v, uv). map_of uv rid = Some ''down'') vs)),
      vl @ map fst (filter (\<lambda>(v, uv). truthy (map_of uv rid)) vs))"
  by (induction vs arbitrary: u d vl) (auto simp: truthy_def)

lemma recount_eq:
  "recount vs r = r\<lparr>r_votes := ups vs (r_id r) - downs vs (r_id r), r_voterIds := voters vs (r_id r)\<rparr>"
  by (simp add: recount_def count_votes_eq ups_def downs_def voters_def)

lemma recount_idem: "recount vs (recount vs r) = recount vs r"
  by (simp add: recount_eq)

lemma hub_inv_update:
  "hub_inv h \<Longrightarrow> session_inv s \<Longrightarrow> hub_inv (h\<lparr>sessions := AList.update sid s (sessions h)\<rparr>)"
  by (auto simp: hub_inv_def update_conv' split: if_splits)

lemma session_inv_new:
  "session_inv \<lparr>s_id = sid, hostId = hId, hostName = hName, createdAt = now,
            lastActivity = now, allowRecipeGeneration = True,
            participants = [\<lparr>p_id = hId, p_name = hName, joinedAt = now, isConnected = True,
               reconnectedAt = None, disconnectedAt = None\<rparr>],
            ingredients = [], blacklist = [], s_context = [], recipes = [], votes = []\<rparr>"
  by (simp add: session_inv_def)

lemma p_id_set_update_first:
  assumes "\<And>p. p_id (f p) = p_id p"
  shows "p_id ` set (update_first P f xs) = p_id ` set xs"
proof -
  have "set (map p_id (update_first P f xs)) = set (map p_id xs)"
    using assms by (simp add: map_p_id_update_first)
  then show ?thesis by simp
qed

lemma hub_inv_addParticipant:
  "hub_inv h \<Longrightarrow> hub_inv (snd (addParticipant now sid uid uname h))"
  unfolding addParticipant_def
  by (auto split: prod.splits option.splits dest!: getSession_SomeD getSession_NoneD
        intro!: hub_inv_delete hub_inv_activity hub_inv_modify
        simp: Let_def session_inv_def p_id_set_update_first)

lemma hub_inv_removeParticipant:
  "hub_inv h \<Longrightarrow> hub_inv (snd (removeParticipant now sid uid h))"
  unfolding removeParticipant_def
  by (auto split: prod.splits option.splits dest!: getSession_SomeD getSession_NoneD
        intro!: hub_inv_delete hub_inv_modify
        simp: Let_def session_inv_def p_id_set_update_first)

lemma hub_inv_handleSessionCreate:
  "hub_inv h \<Longrightarrow> hub_inv (handleSessionCreate now w sid uid uname h)"
  unfolding handleSessionCreate_def createSession_def
  by (auto split: prod.splits option.splits dest!: getSession_SomeD getSession_NoneD
        intro!: hub_inv_broadcast hub_inv_update hub_inv_delete session_inv_new
        simp: Let_def dest: hub_inv_addParticipant[of _ now sid uid uname])

lemma hub_inv_handleSessionJoin:
  "hub_inv h \<Longrightarrow> hub_inv (handleSessionJoin now w sid uid uname h)"
  unfolding handleSessionJoin_def
  by (auto split: prod.splits option.splits dest!: getSession_SomeD getSession_NoneD
        intro!: hub_inv_broadcast hub_inv_delete
        simp: Let_def dest: hub_inv_addParticipant[of _ now sid uid uname])

lemma map_entry_twice:
  "AList.map_entry k g (AList.map_entry k f xs) = AList.map_entry k (\<lambda>v. g (f v)) xs"
  by (induction xs) auto

lemma modify_twice:
  "modify_session sid g (modify_session sid f h) = modify_session sid (\<lambda>s. g (f s)) h"
  by (simp add: modify_session_def map_entry_twice)

lemma lower_char_idem: "lower_char (lower_char c) = lower_char c"
  by (auto simp: lower_char_def Let_def)

lemma toLowerCase_idem: "toLowerCase (toLowerCase s) = toLowerCase s"
  by (simp add: toLowerCase_def lower_char_idem)

lemma fresh_uuidD:
  "fresh_uuid h uuid \<Longrightarrow> map_of (sessions h) sid = Some s \<Longrightarrow>
     uuid \<notin> i_id ` set (ingredients s) \<and> uuid \<notin> r_id ` set (recipes s) \<and>
     (\<forall>(u, userVotes) \<in> set (votes s). map_of userVotes uuid = None)"
  by (fastforce simp: fresh_uuid_def map_of_eq_None_iff dest!: map_of_SomeD)

lemma no_votes_recount:
  assumes "\<forall>(u, userVotes) \<in> set vs. map_of userVotes rid = None"
  shows "ups vs rid = 0" "downs vs rid = 0" "voters vs rid = []"
  using assms by (auto simp: ups_def downs_def voters_def filter_empty_conv truthy_def)

lemma hub_inv_with_session:
  assumes "hub_inv h"
    and "\<And>ci s. map_of (clients h) w = Some ci \<Longrightarrow> map_of (sessions h) (sessionId ci) = Some s \<Longrightarrow>
           now - lastActivity s \<le> SESSION_TIMEOUT \<Longrightarrow> session_inv s \<Longrightarrow> hub_inv (K ci s h)"
  shows "hub_inv (case map_of (clients h) w of
                    None \<Rightarrow> h
                  | Some ci \<Rightarrow> (case getSession now (sessionId ci) h of
                                 (None, h1) \<Rightarrow> h1
                               | (Some s, h1) \<Rightarrow> K ci s h1))"
proof (cases "map_of (clients h) w")
  case None
  with assms(1) show ?thesis by simp
next
  case (Some ci)
  obtain so h1 where g: "getSession now (sessionId ci) h = (so, h1)"
    by (cases "getSession now (sessionId ci) h")
  show ?thesis
  proof (cases so)
    case None
    with g Some assms(1) show ?thesis
      by (auto dest!: getSession_NoneD intro: hub_inv_delete)
  next
    case (Some s)
    with g have *: "h1 = h" "map_of (sessions h) (sessionId ci) = Some s"
      "now - lastActivity s \<le> SESSION_TIMEOUT"
      by (auto dest!: getSession_SomeD)
    with assms(1) have "session_inv s" by (auto simp: hub_inv_def)
    with * assms(2) [of ci s] \<open>map_of (clients h) w = Some ci\<close> g Some show ?thesis by simp
  qed
qed

lemma session_inv_add_ingredient:
  assumes "session_inv s" "uuid \<notin> i_id ` set (ingredients s)"
    and "\<not> (\<exists>ing \<in> set (ingredients s). toLowerCase (i_name ing) = toLowerCase name)"
  shows "session_inv (s\<lparr>ingredients := ingredients s @
           [\<lparr>i_id = uuid, i_name = toLowerCase name, addedBy = a, addedAt = t\<rparr>]\<rparr>)"
  using assms by (auto simp: session_inv_def toLowerCase_idem)

lemma hub_inv_handleIngredientsAdd:
  assumes "hub_inv h" "fresh_uuid h uuid"
  shows "hub_inv (handleIngredientsAdd now uuid w ing h)"
  unfolding handleIngredientsAdd_def
proof (rule hub_inv_with_session [OF assms(1)])
  fix ci s
  assume s: "map_of (sessions h) (sessionId ci) = Some s" and inv: "session_inv s"
  from fresh_uuidD [OF assms(2) s] have fr: "uuid \<notin> i_id ` set (ingredients s)" by simp
  show "hub_inv
          (let ingredientName = toLowerCase (i_name ing) in
           if \<exists>ing \<in> set (ingredients s). toLowerCase (i_name ing) = ingredientName
           then h
           else
             let newIngredient = \<lparr>i_id = uuid, i_name = ingredientName,
                   addedBy = addedBy ing, addedAt = now\<rparr>;
                 h2 = modify_session (sessionId ci)
                        (\<lambda>s. s\<lparr>ingredients := ingredients s @ [newIngredient]\<rparr>) h;
                 h3 = updateSessionActivity now (sessionId ci) h2
             in broadcastToSession now (sessionId ci)
                  (IngredientsAdded newIngredient) None h3)"
  proof (cases "\<exists>x \<in> set (ingredients s). toLowerCase (i_name x) = toLowerCase (i_name ing)")
    case True
    with assms(1) show ?thesis by (simp add: Let_def)
  next
    case False
    have "hub_inv (modify_session (sessionId ci)
            (\<lambda>s. s\<lparr>ingredients := ingredients s @ [\<lparr>i_id = uuid, i_name = toLowerCase (i_name ing),
                   addedBy = addedBy ing, addedAt = now\<rparr>]\<rparr>) h)"
      using assms(1) s fr False by (intro hub_inv_modify session_inv_add_ingredient) auto
    with False show ?thesis
      by (simp add: Let_def hub_inv_broadcast hub_inv_activity)
  qed
qed

lemma hub_inv_handleIngredientsRemove:
  "hub_inv h \<Longrightarrow> hub_inv (handleIngredientsRemove now w iid h)"
  unfolding handleIngredientsRemove_def updateSessionActivity_def
  by (auto split: prod.splits option.splits dest!: getSession_SomeD getSession_NoneD
        intro!: hub_inv_broadcast hub_inv_delete hub_inv_modify
        simp: Let_def modify_twice session_inv_def distinct_map_remove_first)

lemma hub_inv_handleIngredientsBlacklist:
  "hub_inv h \<Longrightarrow> hub_inv (handleIngredientsBlacklist now w name fromI h)"
  unfolding handleIngredientsBlacklist_def updateSessionActivity_def
  by (auto split: prod.splits option.splits dest!: getSession_SomeD getSession_NoneD
        intro!: hub_inv_broadcast hub_inv_delete hub_inv_modify
        simp: Let_def modify_twice session_inv_def distinct_map_remove_first)

lemma session_inv_add_recipe:
  assumes "session_inv s" "\<forall>(u, userVotes) \<in> set (votes s). map_of userVotes uuid = None"
  shows "session_inv (s\<lparr>recipes := recipes s @
           [r\<lparr>r_id := uuid, r_createdAt := t, r_votes := 0, r_voterIds := []\<rparr>]\<rparr>)"
  using assms by (simp add: session_inv_def recount_eq no_votes_recount)

lemma hub_inv_handleRecipesAdd:
  assumes "hub_inv h" "fresh_uuid h uuid"
  shows "hub_inv (handleRecipesAdd now uuid w r h)"
  unfolding handleRecipesAdd_def
proof (rule hub_inv_with_session [OF assms(1)])
  fix ci s
  assume s: "map_of (sessions h) (sessionId ci) = Some s" and inv: "session_inv s"
  from fresh_uuidD [OF assms(2) s]
  have fr: "\<forall>(u, userVotes) \<in> set (votes s). map_of userVotes uuid = None" by simp
  have "hub_inv (modify_session (sessionId ci)
          (\<lambda>s. s\<lparr>recipes := recipes s @
             [r\<lparr>r_id := uuid, r_createdAt := now, r_votes := 0, r_voterIds := []\<rparr>]\<rparr>) h)"
    using assms(1) s fr by (intro hub_inv_modify session_inv_add_recipe) auto
  then show "hub_inv
          (let newRecipe = r\<lparr>r_id := uuid, r_createdAt := now, r_votes := 0, r_voterIds := []\<rparr>;
               h2 = modify_session (sessionId ci) (\<lambda>s. s\<lparr>recipes := recipes s @ [newRecipe]\<rparr>) h;
               h3 = updateSessionActivity now (sessionId ci) h2
           in broadcastToSession now (sessionId ci) (RecipesAdded newRecipe) None h3)"
    by (simp add: Let_def hub_inv_broadcast hub_inv_activity)
qed

lemma map_fst_map_entry: "map fst (AList.map_entry k f xs) = map fst xs"
  by (induction xs) auto

lemma distinct_cast_vote:
  "distinct (map fst vs) \<Longrightarrow> distinct (map fst (cast_vote uid rid vt vs))"
  by (auto simp: cast_vote_def Let_def map_fst_map_entry map_of_eq_None_iff)

lemma hub_inv_handleRecipesVote:
  "hub_inv h \<Longrightarrow> hub_inv (handleRecipesVote now w rid vt h)"
  unfolding handleRecipesVote_def updateSessionActivity_def
  by (auto split: prod.splits option.splits dest!: getSession_SomeD getSession_NoneD
        intro!: hub_inv_broadcast hub_inv_delete hub_inv_modify
        simp: Let_def modify_twice session_inv_def distinct_cast_vote recount_idem)

lemma hub_inv_handleRecipesRemove:
  "hub_inv h \<Longrightarrow> hub_inv (handleRecipesRemove now w rid h)"
  unfolding handleRecipesRemove_def updateSessionActivity_def
  by (auto split: prod.splits option.splits dest!: getSession_SomeD getSession_NoneD
        intro!: hub_inv_broadcast hub_inv_delete hub_inv_modify
        simp: Let_def modify_twice session_inv_def map_remove_first_fixed)

lemma hub_inv_handleContextUpdate:
  "hub_inv h \<Longrightarrow> hub_inv (handleContextUpdate now w c h)"
  unfolding handleContextUpdate_def updateSessionActivity_def
  by (auto split: prod.splits option.splits dest!: getSession_SomeD getSession_NoneD
        intro!: hub_inv_broadcast hub_inv_delete hub_inv_modify
        simp: Let_def modify_twice session_inv_def)

lemma find_SomeD: "find P xs = Some x \<Longrightarrow> x \<in> set xs \<and> P x"
  by (induction xs) (auto split: if_splits)

lemma hub_inv_handleHostTransfer:
  "hub_inv h \<Longrightarrow> hub_inv (handleHostTransfer now w n h)"
  unfolding handleHostTransfer_def updateSessionActivity_def
  by (auto split: prod.splits option.splits dest!: getSession_SomeD getSession_NoneD find_SomeD
        intro!: hub_inv_broadcast hub_inv_delete hub_inv_modify
        simp: Let_def modify_twice session_inv_def)

lemma hub_inv_handleHostPermissions:
  "hub_inv h \<Longrightarrow> hub_inv (handleHostPermissions now w a h)"
  unfolding handleHostPermissions_def updateSessionActivity_def
  by (auto split: prod.splits option.splits dest!: getSession_SomeD getSession_NoneD
        intro!: hub_inv_broadcast hub_inv_delete hub_inv_modify
        simp: Let_def modify_twice session_inv_def)

lemma hub_inv_handleSessionEnd:
  "hub_inv h \<Longrightarrow> hub_inv (handleSessionEnd now w h)"
  unfolding handleSessionEnd_def
  by (auto split: prod.splits option.splits dest!: getSession_SomeD getSession_NoneD
        intro!: hub_inv_delete hub_inv_broadcast
        simp: Let_def)

lemma hub_inv_handleDisconnection:
  "hub_inv h \<Longrightarrow> hub_inv (handleDisconnection now w h)"
  unfolding handleDisconnection_def
  by (auto split: option.splits intro!: hub_inv_broadcast hub_inv_removeParticipant simp: Let_def)

lemma hub_inv_sweep_fold:
  "hub_inv h \<Longrightarrow> hub_inv (fold (\<lambda>sid h'. broadcastToSession now sid (SessionExpired sid) None
                 (h'\<lparr>sessions := AList.delete sid (sessions h')\<rparr>)) xs h)"
  by (induction xs arbitrary: h) (simp_all add: hub_inv_broadcast hub_inv_delete)

lemma hub_inv_cleanup: "hub_inv h \<Longrightarrow> hub_inv (cleanupExpiredSessions now h)"
  by (simp add: cleanupExpiredSessions_def hub_inv_sweep_fold)

lemma hub_inv_handleMessage:
  "hub_inv h \<Longrightarrow> input_ok h (Message w cmd now uuid) \<Longrightarrow> hub_inv (handleMessage now uuid w cmd h)"
  by (cases cmd)
     (simp_all add: hub_inv_handleSessionCreate hub_inv_handleSessionJoin
        hub_inv_handleIngredientsAdd hub_inv_handleIngredientsRemove
        hub_inv_handleIngredientsBlacklist hub_inv_handleRecipesAdd hub_inv_handleRecipesVote
        hub_inv_handleRecipesRemove hub_inv_handleContextUpdate hub_inv_handleHostTransfer
        hub_inv_handleHostPermissions hub_inv_handleSessionEnd)

lemma hub_inv_step: "hub_inv h \<Longrightarrow> input_ok h i \<Longrightarrow> hub_inv (step h i)"
proof (cases i)
  case (Message w cmd now uuid)
  then show "hub_inv h \<Longrightarrow> input_ok h i \<Longrightarrow> hub_inv (step h i)"
    using hub_inv_handleMessage by simp
qed (simp_all add: handleConnection_def hub_inv_handleDisconnection hub_inv_cleanup)

lemma hub_inv_run: "hub_inv h \<Longrightarrow> valid_trace h is \<Longrightarrow> hub_inv (run h is)"
  by (induction "is" arbitrary: h) (simp_all add: hub_inv_step)

lemma reachable_inv:
  "valid_trace init_hub is \<Longrightarrow> map_of (sessions (run init_hub is)) sid = Some s \<Longrightarrow> session_inv s"
  using hub_inv_run [OF hub_inv_init] by (auto simp: hub_inv_def)

lemma broadcast_live:
  "map_of (sessions h) sid = Some s \<Longrightarrow> now - lastActivity s \<le> SESSION_TIMEOUT \<Longrightarrow>
     broadcastToSession now sid m e h
       = h\<lparr>sent := sent h @ map (\<lambda>w. (w, m)) (receivers sid e h)\<rparr>"
  by (simp add: broadcastToSession_def getSession_def)

lemma modify_fields [simp]:
  "clients (modify_session sid f h) = clients h"
  "userConnections (modify_session sid f h) = userConnections h"
  "open_ws (modify_session sid f h) = open_ws h"
  "sent (modify_session sid f h) = sent h"
  "receivers sid' e (modify_session sid f h) = receivers sid' e h"
  by (simp_all add: modify_session_def receivers_def)

lemma modify_lookup:
  "map_of (sessions (modify_session sid f h)) sid' =
     (if sid' = sid then map_option f (map_of (sessions h) sid) else map_of (sessions h) sid')"
  by (auto simp: modify_session_def map_of_map_entry split: option.splits)

lemma SESSION_TIMEOUT_nonneg [simp]: "0 \<le> SESSION_TIMEOUT"
  by (simp add: SESSION_TIMEOUT_def)

lemma commit_broadcast:
  assumes "map_of (sessions h) sid = Some s"
  shows "broadcastToSession now sid m e (updateSessionActivity now sid (modify_session sid f h))
           = (modify_session sid (\<lambda>s. (f s)\<lparr>lastActivity := now\<rparr>) h)
               \<lparr>sent := sent h @ map (\<lambda>w. (w, m)) (receivers sid e h)\<rparr>"
proof -
  let ?h' = "modify_session sid (\<lambda>s. (f s)\<lparr>lastActivity := now\<rparr>) h"
  have "map_of (sessions ?h') sid = Some ((f s)\<lparr>lastActivity := now\<rparr>)"
    using assms by (simp add: modify_lookup)
  then have "broadcastToSession now sid m e ?h'
               = ?h'\<lparr>sent := sent ?h' @ map (\<lambda>w. (w, m)) (receivers sid e ?h')\<rparr>"
    by (rule broadcast_live) simp
  then show ?thesis by (simp add: updateSessionActivity_def modify_twice)
qed

lemmas eval_defs =
  Let_def init_hub_def handleConnection_def send_def
  handleSessionCreate_def handleSessionJoin_def getSession_def createSession_def
  register_def addParticipant_def modify_session_def updateSessionActivity_def
  SESSION_TIMEOUT_def broadcastToSession_def receivers_def

lemma run_trace_join:
  "sessions (run init_hub trace_join) = [(''S'', session_join)]"
  "clients (run init_hub trace_join) = [(1, alice), (2, bob)]"
  "userConnections (run init_hub trace_join) = [(''U1'', 1), (''U2'', 2)]"
  "open_ws (run init_hub trace_join) = {1, 2}"
  by (simp_all add: trace_join_def session_join_def alice_def bob_def eval_defs insert_commute)

subsection \<open>Evaluation of the example runs\<close>

lemma toLowerCase_examples:
  "toLowerCase ''Flour'' = ''flour''"
  "toLowerCase ''FLOUR'' = ''flour''"
  "toLowerCase ''flour'' = ''flour''"
  "toLowerCase ''Salt'' = ''salt''"
  "toLowerCase ''salt'' = ''salt''"
  by code_simp+




subsection \<open>Effect of the ingredient handlers on a live session\<close>

lemma handleIngredientsAdd_new:
  assumes "map_of (clients h) w = Some ci"
    and "map_of (sessions h) (sessionId ci) = Some s"
    and "now - lastActivity s \<le> SESSION_TIMEOUT"
    and "\<not> (\<exists>x \<in> set (ingredients s). toLowerCase (i_name x) = toLowerCase (i_name ing))"
  shows "handleIngredientsAdd now uuid w ing h =
           (modify_session (sessionId ci)
              (\<lambda>s. s\<lparr>ingredients := ingredients s @
                     [\<lparr>i_id = uuid, i_name = toLowerCase (i_name ing), addedBy = addedBy ing,
                       addedAt = now\<rparr>], lastActivity := now\<rparr>) h)
           \<lparr>sent := sent h @
              map (\<lambda>w'. (w', IngredientsAdded \<lparr>i_id = uuid, i_name = toLowerCase (i_name ing),
                                addedBy = addedBy ing, addedAt = now\<rparr>))
                (receivers (sessionId ci) None h)\<rparr>"
  using assms by (simp add: handleIngredientsAdd_def getSession_Some Let_def commit_broadcast)





subsection \<open>Effect of a vote on the tallies\<close>










subsection \<open>Recorded votes under conformant inputs\<close>

lemma hub_votes_delete: "hub_votes h \<Longrightarrow> hub_votes (h\<lparr>sessions := AList.delete sid (sessions h)\<rparr>)"
  by (auto simp: hub_votes_def AList.delete_conv split: if_splits)

lemma hub_votes_send [simp]: "hub_votes (send w m h) = hub_votes h"
  by (simp add: hub_votes_def send_def)

lemma hub_votes_register [simp]: "hub_votes (register w u sid n h) = hub_votes h"
  by (simp add: hub_votes_def register_def)

lemma hub_votes_other_fields [simp]:
  "hub_votes (h\<lparr>sent := a\<rparr>) = hub_votes h"
  "hub_votes (h\<lparr>clients := b\<rparr>) = hub_votes h"
  "hub_votes (h\<lparr>userConnections := c\<rparr>) = hub_votes h"
  "hub_votes (h\<lparr>open_ws := d\<rparr>) = hub_votes h"
  by (simp_all add: hub_votes_def)



lemma votes_ok_lastActivity [simp]: "votes_ok (s\<lparr>lastActivity := t\<rparr>) = votes_ok s"
  by (simp add: votes_ok_def)









lemma hub_votes_with_session:
  assumes "hub_votes h"
    and "\<And>ci s. map_of (clients h) w = Some ci \<Longrightarrow> map_of (sessions h) (sessionId ci) = Some s \<Longrightarrow>
           now - lastActivity s \<le> SESSION_TIMEOUT \<Longrightarrow> votes_ok s \<Longrightarrow> hub_votes (K ci s h)"
  shows "hub_votes (case map_of (clients h) w of
                    None \<Rightarrow> h
                  | Some ci \<Rightarrow> (case getSession now (sessionId ci) h of
                                 (None, h1) \<Rightarrow> h1
                               | (Some s, h1) \<Rightarrow> K ci s h1))"
proof (cases "map_of (clients h) w")
  case None
  with assms(1) show ?thesis by simp
next
  case (Some ci)
  obtain so h1 where g: "getSession now (sessionId ci) h = (so, h1)"
    by (cases "getSession now (sessionId ci) h")
  show ?thesis
  proof (cases so)
    case None
    with g Some assms(1) show ?thesis
      by (auto dest!: getSession_NoneD intro: hub_votes_delete)
  next
    case (Some s)
    with g have *: "h1 = h" "map_of (sessions h) (sessionId ci) = Some s"
      "now - lastActivity s \<le> SESSION_TIMEOUT"
      by (auto dest!: getSession_SomeD)
    with assms(1) have "votes_ok s" by (auto simp: hub_votes_def)
    with * assms(2) [of ci s] \<open>map_of (clients h) w = Some ci\<close> g Some show ?thesis by simp
  qed
qed





















subsection \<open>Tallies as numbers of users\<close>

lemma run_append: "run h (xs @ ys) = run (run h xs) ys"
  by (induction xs arbitrary: h) simp_all

lemma valid_trace_append:
  "valid_trace h (xs @ ys) = (valid_trace h xs \<and> valid_trace (run h xs) ys)"
  by (induction xs arbitrary: h) simp_all











subsection \<open>Voting up and then neutral\<close>





lemma recount_recount: "recount a (recount b r) = recount a r"
  by (simp add: recount_eq)

subsection \<open>Effect of a blacklist command on a live session\<close>





subsection \<open>Effect of create and join\<close>

lemma map_entry_as_update:
  "map_of xs k = Some v \<Longrightarrow> AList.map_entry k f xs = AList.update k (f v) xs"
  by (induction xs) (auto split: if_splits)

lemma modify_as_update:
  "map_of (sessions h) sid = Some s \<Longrightarrow>
     modify_session sid f h = h\<lparr>sessions := AList.update sid (f s) (sessions h)\<rparr>"
  by (simp add: modify_session_def map_entry_as_update)

lemma addParticipant_live:
  assumes "map_of (sessions h) sid = Some s" "now - lastActivity s \<le> SESSION_TIMEOUT"
  shows "addParticipant now sid uid uname h
           = (Some (rejoined now uid uname s),
              h\<lparr>sessions := AList.update sid (rejoined now uid uname s) (sessions h)\<rparr>)"
  using assms
  by (cases "\<exists>p \<in> set (participants s). p_id p = uid")
     (simp_all add: addParticipant_def getSession_Some Let_def updateSessionActivity_def
        modify_twice modify_lookup rejoined_def,
      simp_all add: modify_as_update [where s = s])

lemma receivers_fields [simp]:
  "receivers sid e (h\<lparr>sessions := x\<rparr>) = receivers sid e h"
  "receivers sid e (h\<lparr>sent := y\<rparr>) = receivers sid e h"
  "receivers sid e (h\<lparr>userConnections := z\<rparr>) = receivers sid e h"
  by (simp_all add: receivers_def)

lemma handleSessionCreate_rejoin:
  assumes "map_of (sessions h) sid = Some s" "now - lastActivity s \<le> SESSION_TIMEOUT"
    and "hostId s = uid"
  shows "handleSessionCreate now w sid uid uname h
           = h\<lparr>sessions := AList.update sid (rejoined now uid uname s) (sessions h),
               clients := AList.update w \<lparr>userId = uid, sessionId = sid, username = uname\<rparr>
                            (clients h),
               userConnections := AList.update uid w (userConnections h),
               sent := sent h @ [(w, SessionCreated (rejoined now uid uname s))] @
                       map (\<lambda>w'. (w', ParticipantJoined uid uname (ReconnectedAt now)))
                         (receivers sid (Some uid)
                            (h\<lparr>clients := AList.update w
                                 \<lparr>userId = uid, sessionId = sid, username = uname\<rparr> (clients h)\<rparr>))\<rparr>"
proof -
  let ?s' = "rejoined now uid uname s"
  let ?h4 = "send w (SessionCreated ?s')
               (register w uid sid uname (h\<lparr>sessions := AList.update sid ?s' (sessions h)\<rparr>))"
  have l: "map_of (sessions ?h4) sid = Some ?s'"
    by (simp add: send_def register_def update_conv')
  have t: "now - lastActivity ?s' \<le> SESSION_TIMEOUT"
    by (simp add: rejoined_def)
  show ?thesis
    using assms
    by (simp add: handleSessionCreate_def getSession_Some addParticipant_live Let_def
          broadcast_live [OF l t])
       (simp add: send_def register_def receivers_def)
qed

lemma handleSessionJoin_rejected:
  assumes "map_of (sessions h) sid = Some s" "now - lastActivity s \<le> SESSION_TIMEOUT"
    and "map_of (userConnections h) uid = Some w'" "w' \<noteq> w"
  shows "handleSessionJoin now w sid uid uname h
           = send w (SessionError ''User already connected from another client'') h"
  using assms by (simp add: handleSessionJoin_def getSession_Some)

lemma handleSessionCreate_exists:
  assumes "map_of (sessions h) sid = Some s" "now - lastActivity s \<le> SESSION_TIMEOUT"
    and "hostId s \<noteq> uid"
  shows "handleSessionCreate now w sid uid uname h
           = send w (SessionError ''Session already exists'') h"
  using assms by (simp add: handleSessionCreate_def getSession_Some)

lemma handleSessionCreate_new:
  assumes "map_of (sessions h) sid = None"
  shows "handleSessionCreate now w sid uid uname h
           = send w (SessionCreated (fst (createSession now sid uid uname h)))
               (register w uid sid uname (snd (createSession now sid uid uname h)))"
  using assms by (simp add: handleSessionCreate_def getSession_def createSession_def Let_def)

lemma run_trace_third:
  "sessions (run init_hub trace_third) = [(''S'', session_join)]"
  "clients (run init_hub trace_third) = [(1, alice), (2, bob)]"
  "userConnections (run init_hub trace_third) = [(''U1'', 1), (''U2'', 2)]"
  "open_ws (run init_hub trace_third) = {1, 2, 3}"
  "sent (run init_hub trace_third) = sent (run init_hub trace_join) @ [(3, ConnectionEstablished ''c3'')]"
  by (simp_all add: trace_third_def run_append run_trace_join handleConnection_def send_def
        insert_commute)

lemma valid_trace_third: "valid_trace init_hub trace_third"
  by (simp add: trace_third_def trace_join_def eval_defs)

lemma third_session:
  "map_of (sessions (run init_hub trace_third)) ''S'' = Some session_join"
  "2 - lastActivity session_join \<le> SESSION_TIMEOUT"
  by (simp_all add: run_trace_third session_join_def SESSION_TIMEOUT_def)

lemma rejoined_example: "rejoined 2 ''U1'' ''Alice'' session_join = session_rejoin"
  by (simp add: rejoined_def session_join_def session_rejoin_def)

lemma run_trace_rejoin:
  "sessions (run init_hub trace_rejoin) = [(''S'', session_rejoin)]"
  "clients (run init_hub trace_rejoin) = [(1, alice), (2, bob), (3, alice)]"
  "userConnections (run init_hub trace_rejoin) = [(''U1'', 3), (''U2'', 2)]"
  "open_ws (run init_hub trace_rejoin) = {1, 2, 3}"
proof -
  have h: "hostId session_join = ''U1''" by (simp add: session_join_def)
  have "run init_hub trace_rejoin
          = handleSessionCreate 2 3 ''S'' ''U1'' ''Alice'' (run init_hub trace_third)"
    by (simp add: trace_rejoin_def run_append)
  then show "sessions (run init_hub trace_rejoin) = [(''S'', session_rejoin)]"
    and "clients (run init_hub trace_rejoin) = [(1, alice), (2, bob), (3, alice)]"
    and "userConnections (run init_hub trace_rejoin) = [(''U1'', 3), (''U2'', 2)]"
    and "open_ws (run init_hub trace_rejoin) = {1, 2, 3}"
    using handleSessionCreate_rejoin [OF third_session h, of 3 "''Alice''"]
    by (simp_all add: run_trace_third rejoined_example alice_def bob_def)
qed

lemma find_update_first:
  "(\<And>x. P x \<Longrightarrow> P (f x)) \<Longrightarrow> find P (update_first P f xs) = map_option f (find P xs)"
  by (induction xs) auto

subsection \<open>The reaper\<close>

lemma broadcast_after_delete:
  "broadcastToSession now sid m e (h\<lparr>sessions := AList.delete sid (sessions h)\<rparr>)
     = h\<lparr>sessions := AList.delete sid (sessions h)\<rparr>"
  by (simp add: broadcastToSession_def getSession_def AList.delete_conv)

lemma sweep_fold_sent:
  "sent (fold (\<lambda>sid h'. broadcastToSession now sid (SessionExpired sid) None
                 (h'\<lparr>sessions := AList.delete sid (sessions h')\<rparr>)) xs h) = sent h"
  by (induction xs arbitrary: h) (simp_all add: broadcast_after_delete)

lemma cleanupExpiredSessions_sent: "sent (cleanupExpiredSessions now h) = sent h"
  by (simp add: cleanupExpiredSessions_def sweep_fold_sent)

text \<open>
  C1. A sweep is to remove every session idle for longer than the timeout and to publish
  \<^verbatim>\<open>session:expired\<close> to the open sockets still bound to it. After \<open>trace_create\<close>,
  socket 1 is open and bound to S. The sweep at time 14400001 removes S, but it sends
  nothing: \<^verbatim>\<open>broadcastToSession\<close> looks the session up after \<^verbatim>\<open>sessions.delete\<close> and
  returns at once. Socket 1 gets no \<^verbatim>\<open>session:expired\<close>.
\<close>

theorem sweep_removes_but_publishes_nothing:
  "receivers ''S'' None (run init_hub trace_create) = [1]
   \<and> map_of (sessions (run init_hub trace_create)) ''S'' \<noteq> None
   \<and> map_of (sessions (step (run init_hub trace_create) (Sweep 14400001))) ''S'' = None
   \<and> sent (step (run init_hub trace_create) (Sweep 14400001)) = sent (run init_hub trace_create)
   \<and> (1, SessionExpired ''S'') \<notin> set (sent (step (run init_hub trace_create) (Sweep 14400001)))"
  by (simp add: trace_create_def Let_def init_hub_def handleConnection_def send_def
        handleSessionCreate_def getSession_def createSession_def register_def
        cleanupExpiredSessions_def SESSION_TIMEOUT_def broadcastToSession_def receivers_def)

subsection \<open>The blacklist and the ingredient names\<close>




subsection \<open>Recipe tallies and the recorded votes\<close>




subsection \<open>A userId that is already connected\<close>

text \<open>
  C4 (as stated). Every \<^verbatim>\<open>session:create\<close> or \<^verbatim>\<open>session:join\<close> whose userId is bound to
  another live connection is to fail with the error "User already connected from another
  client" and change nothing, host rejoin apart. Only \<^verbatim>\<open>handleSessionJoin\<close> reads
  \<^verbatim>\<open>userConnections\<close>, and only after it has found the session. Bob is connected on the
  open socket 2; from socket 3, \<^verbatim>\<open>session:create\<close> of a new session T with Bob's userId
  creates T, rebinds Bob to socket 3 and answers \<^verbatim>\<open>session:created\<close>; \<^verbatim>\<open>session:join\<close> of
  the absent T answers "Session not found or expired".
\<close>

theorem create_ignores_existing_connection:
  "map_of (userConnections (run init_hub trace_third)) ''U2'' = Some 2
   \<and> 2 \<in> open_ws (run init_hub trace_third)
   \<and> map_of (sessions (run init_hub trace_third)) ''T'' = None
   \<and> map_of (userConnections
        (handleSessionCreate 2 3 ''T'' ''U2'' ''Bob'' (run init_hub trace_third))) ''U2'' = Some 3
   \<and> map_of (sessions
        (handleSessionCreate 2 3 ''T'' ''U2'' ''Bob'' (run init_hub trace_third))) ''T''
      = Some (fst (createSession 2 ''T'' ''U2'' ''Bob'' (run init_hub trace_third)))
   \<and> sent (handleSessionCreate 2 3 ''T'' ''U2'' ''Bob'' (run init_hub trace_third))
      = sent (run init_hub trace_third) @
          [(3, SessionCreated (fst (createSession 2 ''T'' ''U2'' ''Bob'' (run init_hub trace_third))))]
   \<and> handleSessionJoin 2 3 ''T'' ''U2'' ''Bob'' (run init_hub trace_third)
      = send 3 (SessionError ''Session not found or expired'') (run init_hub trace_third)"
proof -
  have n: "map_of (sessions (run init_hub trace_third)) ''T'' = None"
    by (simp add: run_trace_third)
  have "handleSessionJoin 2 3 ''T'' ''U2'' ''Bob'' (run init_hub trace_third)
      = send 3 (SessionError ''Session not found or expired'') (run init_hub trace_third)"
    using n by (simp add: handleSessionJoin_def getSession_def)
  then show ?thesis
    using n
    by (simp add: handleSessionCreate_new [OF n] run_trace_third send_def register_def
          createSession_def Let_def update_conv')
qed

text \<open>
  C4 (amended). When the userId is bound in \<^verbatim>\<open>userConnections\<close> to another connection:
  \<^verbatim>\<open>session:join\<close> of a live session sends the caller the error "User already connected
  from another client" and changes nothing else; \<^verbatim>\<open>session:create\<close> makes no such check:
  on a live session whose host is another user it sends "Session already exists" and
  changes nothing else, and on an absent session it creates the session and registers the
  caller, rebinding the userId.
\<close>

theorem join_rejects_second_connection:
  assumes "map_of (userConnections h) uid = Some w'" and "w' \<noteq> w"
  shows "(map_of (sessions h) sid = Some s \<and> now - lastActivity s \<le> SESSION_TIMEOUT \<longrightarrow>
            handleSessionJoin now w sid uid uname h
              = h\<lparr>sent := sent h @
                  [(w, SessionError ''User already connected from another client'')]\<rparr>)
       \<and> (map_of (sessions h) sid = Some s \<and> now - lastActivity s \<le> SESSION_TIMEOUT \<and>
            hostId s \<noteq> uid \<longrightarrow>
            handleSessionCreate now w sid uid uname h
              = h\<lparr>sent := sent h @ [(w, SessionError ''Session already exists'')]\<rparr>)
       \<and> (map_of (sessions h) sid = None \<longrightarrow>
            handleSessionCreate now w sid uid uname h
              = h\<lparr>sessions := sessions (snd (createSession now sid uid uname h)),
                  clients := AList.update w \<lparr>userId = uid, sessionId = sid, username = uname\<rparr>
                               (clients h),
                  userConnections := AList.update uid w (userConnections h),
                  sent := sent h @
                    [(w, SessionCreated (fst (createSession now sid uid uname h)))]\<rparr>)"
  using assms
  by (auto simp: handleSessionJoin_rejected handleSessionCreate_exists handleSessionCreate_new
        send_def register_def createSession_def Let_def)

theorem join_rejects_second_connection_witness:
  "map_of (userConnections (run init_hub trace_third)) ''U2'' = Some 2
   \<and> (2::nat) \<noteq> 3
   \<and> map_of (sessions (run init_hub trace_third)) ''S'' = Some session_join
   \<and> 2 - lastActivity session_join \<le> SESSION_TIMEOUT
   \<and> hostId session_join \<noteq> ''U2''
   \<and> handleSessionJoin 2 3 ''S'' ''U2'' ''Bob'' (run init_hub trace_third)
      = (run init_hub trace_third)
          \<lparr>sent := sent (run init_hub trace_third) @
             [(3, SessionError ''User already connected from another client'')]\<rparr>
   \<and> handleSessionCreate 2 3 ''S'' ''U2'' ''Bob'' (run init_hub trace_third)
      = (run init_hub trace_third)
          \<lparr>sent := sent (run init_hub trace_third) @
             [(3, SessionError ''Session already exists'')]\<rparr>
   \<and> map_of (sessions (run init_hub trace_third)) ''T'' = None
   \<and> handleSessionCreate 2 3 ''T'' ''U2'' ''Bob'' (run init_hub trace_third)
      = (run init_hub trace_third)
          \<lparr>sessions := sessions (snd (createSession 2 ''T'' ''U2'' ''Bob''
                                        (run init_hub trace_third))),
            clients := [(1, alice), (2, bob),
                        (3, \<lparr>userId = ''U2'', sessionId = ''T'', username = ''Bob''\<rparr>)],
            userConnections := [(''U1'', 1), (''U2'', 3)],
            sent := sent (run init_hub trace_third) @
              [(3, SessionCreated (fst (createSession 2 ''T'' ''U2'' ''Bob''
                                          (run init_hub trace_third))))]\<rparr>"
proof -
  have u: "map_of (userConnections (run init_hub trace_third)) ''U2'' = Some 2"
    by (simp add: run_trace_third)
  have d: "(2::nat) \<noteq> 3" by simp
  have h: "hostId session_join \<noteq> ''U2''" by (simp add: session_join_def)
  have n: "map_of (sessions (run init_hub trace_third)) ''T'' = None"
    by (simp add: run_trace_third)
  have c: "AList.update 3 \<lparr>userId = ''U2'', sessionId = ''T'', username = ''Bob''\<rparr>
             (clients (run init_hub trace_third))
           = [(1, alice), (2, bob), (3, \<lparr>userId = ''U2'', sessionId = ''T'', username = ''Bob''\<rparr>)]"
    "AList.update ''U2'' 3 (userConnections (run init_hub trace_third))
       = [(''U1'', 1), (''U2'', 3)]"
    by (simp_all add: run_trace_third)
  from join_rejects_second_connection [OF u d, of "''S''" session_join 2 "''Bob''"]
    join_rejects_second_connection [OF u d, of "''T''" session_join 2 "''Bob''"]
    u d h n third_session
  show ?thesis unfolding c [symmetric] by blast
qed

subsection \<open>Host rejoin\<close>

text \<open>
  C5 (as stated). After a host rejoin the prior connection of the host is to be replaced,
  so that the old connection no longer receives the session's broadcasts. The rejoin
  overwrites the host's entry in \<^verbatim>\<open>userConnections\<close> and adds the caller to \<^verbatim>\<open>clients\<close>, where
  the old socket stays: after \<open>trace_rejoin\<close> socket 1 is still a receiver of session S,
  and the next \<^verbatim>\<open>ingredients:added\<close> is sent to it.
\<close>

theorem old_connection_still_receives:
  "valid_trace init_hub trace_rejoin
   \<and> map_of (userConnections (run init_hub trace_rejoin)) ''U1'' = Some 3
   \<and> map_of (clients (run init_hub trace_rejoin)) 1 = Some alice
   \<and> 1 \<in> open_ws (run init_hub trace_rejoin)
   \<and> receivers ''S'' None (run init_hub trace_rejoin) = [1, 2, 3]
   \<and> sent (handleIngredientsAdd 3 ''I1'' 2
              \<lparr>i_id = ''x'', i_name = ''Salt'', addedBy = ''U2'', addedAt = 0\<rparr>
              (run init_hub trace_rejoin))
      = sent (run init_hub trace_rejoin) @
          [(1, IngredientsAdded \<lparr>i_id = ''I1'', i_name = ''salt'', addedBy = ''U2'', addedAt = 3\<rparr>),
           (2, IngredientsAdded \<lparr>i_id = ''I1'', i_name = ''salt'', addedBy = ''U2'', addedAt = 3\<rparr>),
           (3, IngredientsAdded \<lparr>i_id = ''I1'', i_name = ''salt'', addedBy = ''U2'', addedAt = 3\<rparr>)]"
proof -
  let ?h = "run init_hub trace_rejoin"
  have v: "valid_trace init_hub trace_rejoin"
    using valid_trace_third by (simp add: trace_rejoin_def valid_trace_append)
  have b: "map_of (clients ?h) 2 = Some bob"
    and s: "map_of (sessions ?h) (sessionId bob) = Some session_rejoin"
    and t: "3 - lastActivity session_rejoin \<le> SESSION_TIMEOUT"
    and n: "\<not> (\<exists>x \<in> set (ingredients session_rejoin).
                 toLowerCase (i_name x)
                   = toLowerCase (i_name \<lparr>i_id = ''x'', i_name = ''Salt'', addedBy = ''U2'',
                                          addedAt = 0\<rparr>))"
    by (simp_all add: run_trace_rejoin bob_def session_rejoin_def session_join_def
          SESSION_TIMEOUT_def)
  have r: "receivers ''S'' None ?h = [1, 2, 3]"
    by (simp add: receivers_def run_trace_rejoin alice_def bob_def)
  show ?thesis
    using v r
    by (simp add: handleIngredientsAdd_new [OF b s t n] run_trace_rejoin bob_def
          toLowerCase_examples)
qed

text \<open>
  C5 (amended). In a reachable state, when \<^verbatim>\<open>session:create\<close> arrives for a live session
  and the caller's userId is the session's hostId: the host's participant record is set
  connected and stamped with \<open>reconnectedAt\<close> (the session becomes \<open>rejoined\<close>), the userId
  is bound to the caller's socket in \<^verbatim>\<open>userConnections\<close> and the socket is registered in
  \<^verbatim>\<open>clients\<close>, the caller is sent \<^verbatim>\<open>session:created\<close> with the updated session, and
  \<^verbatim>\<open>session:participant:joined\<close> is sent to every open registered socket of the session
  whose userId is another user's.
\<close>

theorem host_rejoin:
  assumes "valid_trace init_hub is"
    and "map_of (sessions (run init_hub is)) sid = Some s"
    and "now - lastActivity s \<le> SESSION_TIMEOUT"
    and "hostId s = uid"
  shows "map_of (sessions (handleSessionCreate now w sid uid uname (run init_hub is))) sid
           = Some (rejoined now uid uname s)
       \<and> (\<exists>p. find (\<lambda>p. p_id p = uid) (participants s) = Some p \<and>
               find (\<lambda>p. p_id p = uid) (participants (rejoined now uid uname s))
                 = Some (p\<lparr>isConnected := True, reconnectedAt := Some now\<rparr>))
       \<and> map_of (userConnections (handleSessionCreate now w sid uid uname (run init_hub is))) uid
           = Some w
       \<and> map_of (clients (handleSessionCreate now w sid uid uname (run init_hub is))) w
           = Some \<lparr>userId = uid, sessionId = sid, username = uname\<rparr>
       \<and> sent (handleSessionCreate now w sid uid uname (run init_hub is))
           = sent (run init_hub is) @ [(w, SessionCreated (rejoined now uid uname s))] @
               map (\<lambda>w'. (w', ParticipantJoined uid uname (ReconnectedAt now)))
                 (receivers sid (Some uid)
                    (handleSessionCreate now w sid uid uname (run init_hub is)))"
proof -
  let ?h = "run init_hub is"
  note eff = handleSessionCreate_rejoin [OF assms(2-4), of w uname]
  have "session_inv s" using assms(1,2) by (rule reachable_inv)
  then have host: "\<exists>p \<in> set (participants s). p_id p = uid"
    using assms(4) by (auto simp: session_inv_def)
  then obtain p where p: "find (\<lambda>p. p_id p = uid) (participants s) = Some p"
    by (cases "find (\<lambda>p. p_id p = uid) (participants s)") (auto simp: find_None_iff)
  have "find (\<lambda>p. p_id p = uid) (participants (rejoined now uid uname s))
          = Some (p\<lparr>isConnected := True, reconnectedAt := Some now\<rparr>)"
    using host p by (simp add: rejoined_def find_update_first)
  with p have part: "\<exists>p. find (\<lambda>p. p_id p = uid) (participants s) = Some p \<and>
               find (\<lambda>p. p_id p = uid) (participants (rejoined now uid uname s))
                 = Some (p\<lparr>isConnected := True, reconnectedAt := Some now\<rparr>)"
    by blast
  have rest: "map_of (sessions (handleSessionCreate now w sid uid uname ?h)) sid
           = Some (rejoined now uid uname s)
       \<and> map_of (userConnections (handleSessionCreate now w sid uid uname ?h)) uid = Some w
       \<and> map_of (clients (handleSessionCreate now w sid uid uname ?h)) w
           = Some \<lparr>userId = uid, sessionId = sid, username = uname\<rparr>
       \<and> sent (handleSessionCreate now w sid uid uname ?h)
           = sent ?h @ [(w, SessionCreated (rejoined now uid uname s))] @
               map (\<lambda>w'. (w', ParticipantJoined uid uname (ReconnectedAt now)))
                 (receivers sid (Some uid) (handleSessionCreate now w sid uid uname ?h))"
    by (simp add: eff update_conv' receivers_def)
  from part rest show ?thesis by blast
qed

theorem host_rejoin_witness:
  "valid_trace init_hub trace_third
   \<and> map_of (sessions (run init_hub trace_third)) ''S'' = Some session_join
   \<and> 2 - lastActivity session_join \<le> SESSION_TIMEOUT
   \<and> hostId session_join = ''U1''
   \<and> map_of (sessions (handleSessionCreate 2 3 ''S'' ''U1'' ''Alice'' (run init_hub trace_third)))
        ''S'' = Some session_rejoin
   \<and> find (\<lambda>p. p_id p = ''U1'') (participants session_rejoin)
      = Some \<lparr>p_id = ''U1'', p_name = ''Alice'', joinedAt = 0, isConnected = True,
               reconnectedAt = Some 2, disconnectedAt = None\<rparr>
   \<and> map_of (userConnections
        (handleSessionCreate 2 3 ''S'' ''U1'' ''Alice'' (run init_hub trace_third))) ''U1'' = Some 3
   \<and> map_of (clients
        (handleSessionCreate 2 3 ''S'' ''U1'' ''Alice'' (run init_hub trace_third))) 3 = Some alice
   \<and> sent (handleSessionCreate 2 3 ''S'' ''U1'' ''Alice'' (run init_hub trace_third))
      = sent (run init_hub trace_third) @
          [(3, SessionCreated session_rejoin),
           (2, ParticipantJoined ''U1'' ''Alice'' (ReconnectedAt 2))]"
proof -
  let ?h' = "handleSessionCreate 2 3 ''S'' ''U1'' ''Alice'' (run init_hub trace_third)"
  have h: "hostId session_join = ''U1''" by (simp add: session_join_def)
  have e: "?h' = run init_hub trace_rejoin"
    by (simp add: trace_rejoin_def run_append)
  have r: "receivers ''S'' (Some ''U1'') ?h' = [2]"
    by (simp add: e receivers_def run_trace_rejoin alice_def bob_def)
  have f: "find (\<lambda>p. p_id p = ''U1'') (participants session_rejoin)
      = Some \<lparr>p_id = ''U1'', p_name = ''Alice'', joinedAt = 0, isConnected = True,
               reconnectedAt = Some 2, disconnectedAt = None\<rparr>"
    by (simp add: session_rejoin_def)
  from host_rejoin [OF valid_trace_third third_session h, of 3 "''Alice''"]
    valid_trace_third third_session h r f
  show ?thesis by (simp add: rejoined_example alice_def)
qed

subsection \<open>Ingredient identity and duplicate suppression\<close>



subsection \<open>Context updates\<close>

text \<open>
  C7. For a registered caller whose session is live: a \<^verbatim>\<open>context:update\<close> of a caller
  who is not the host changes nothing at all (no event is sent, the context stays); the
  host's update overwrites the context and sends \<^verbatim>\<open>context:updated\<close> to exactly the open
  registered sockets of the session that belong to other users.
\<close>

theorem context_update_host_only:
  assumes "map_of (clients h) w = Some ci"
    and "map_of (sessions h) (sessionId ci) = Some s"
    and "now - lastActivity s \<le> SESSION_TIMEOUT"
  shows "(userId ci \<noteq> hostId s \<longrightarrow> handleContextUpdate now w ctx h = h) \<and>
         (userId ci = hostId s \<longrightarrow>
            map_of (sessions (handleContextUpdate now w ctx h)) (sessionId ci)
              = Some (s\<lparr>s_context := ctx, lastActivity := now\<rparr>) \<and>
            sent (handleContextUpdate now w ctx h)
              = sent h @ map (\<lambda>w'. (w', ContextUpdated ctx))
                           (receivers (sessionId ci) (Some (hostId s)) h))"
  using assms
  by (simp add: handleContextUpdate_def getSession_Some Let_def commit_broadcast modify_lookup)

theorem context_update_host_only_witness:
  "map_of (clients (run init_hub trace_join)) 2 = Some bob
   \<and> map_of (clients (run init_hub trace_join)) 1 = Some alice
   \<and> map_of (sessions (run init_hub trace_join)) ''S'' = Some session_join
   \<and> 5 - lastActivity session_join \<le> SESSION_TIMEOUT
   \<and> userId bob \<noteq> hostId session_join \<and> userId alice = hostId session_join
   \<and> handleContextUpdate 5 2 ''dessert'' (run init_hub trace_join) = run init_hub trace_join
   \<and> map_of (sessions (handleContextUpdate 5 1 ''dessert'' (run init_hub trace_join))) ''S''
        = Some (session_join\<lparr>s_context := ''dessert'', lastActivity := 5\<rparr>)
   \<and> sent (handleContextUpdate 5 1 ''dessert'' (run init_hub trace_join))
        = sent (run init_hub trace_join) @ [(2, ContextUpdated ''dessert'')]"
proof -
  let ?h = "run init_hub trace_join"
  have b: "map_of (clients ?h) 2 = Some bob" and a: "map_of (clients ?h) 1 = Some alice"
    by (simp_all add: run_trace_join)
  have sb: "map_of (sessions ?h) (sessionId bob) = Some session_join"
    and sa: "map_of (sessions ?h) (sessionId alice) = Some session_join"
    by (simp_all add: run_trace_join alice_def bob_def)
  have t: "5 - lastActivity session_join \<le> SESSION_TIMEOUT"
    by (simp add: session_join_def SESSION_TIMEOUT_def)
  have r: "receivers ''S'' (Some ''U1'') ?h = [2]"
    by (simp add: receivers_def run_trace_join alice_def bob_def)
  show ?thesis
    using context_update_host_only [OF b sb t, of "''dessert''"]
      context_update_host_only [OF a sa t, of "''dessert''"] a b sa t r
    by (simp add: alice_def bob_def session_join_def)
qed

subsection \<open>Up, then neutral\<close>




subsection \<open>Adding and removing an ingredient\<close>



subsection \<open>A vote on a recipe id that is not in the session\<close>



end
